theory Spec2Isabelle
  imports
    Complex_Main
    "HOL-Library.Char_ord"
    "HOL-Library.List_Lexorder"
    "HOL-Library.Product_Lexorder"
    "HOL-Library.Multiset"
    "HOL-Library.Word"
begin

section \<open>The movies dashboard: data model\<close>

text \<open>
  The script \<^verbatim>\<open>streamlit_app.py\<close> loads a table of (year, genre, gross) rows, fetches a
  USD to EUR rate, filters the table by the selected genres and years, pivots it into a
  year by genre matrix of summed gross, sorts the rows by year descending and multiplies
  every cell by the rate.

  Years are \<^typ>\<open>int\<close>; genres are \<^typ>\<open>string\<close>, ordered as the language orders
  them, by code point. The type \<open>'a\<close> of the amounts is the type of the \<^verbatim>\<open>gross\<close>
  column, which \<^verbatim>\<open>read_csv\<close> infers from a file that is not part of the sources: a
  column of integers is \<^verbatim>\<open>int64\<close>, whose sums wrap around, and is \<^typ>\<open>64 word\<close>
  here. No type of this development is \<^verbatim>\<open>float64\<close>: where a table or a rate is
  \<^typ>\<open>real\<close>, sums and products are exact, which the rounded ones of the program are
  not, and missing values are absent.
\<close>

record 'a movie =
  year :: int
  genre :: string
  gross :: 'a

text \<open>
  A pivoted data frame: the row labels (the index, named \<^verbatim>\<open>year\<close>), the column labels
  (named \<^verbatim>\<open>genre\<close>) and the cells, one list per row.
\<close>

record 'a frame =
  index :: "int list"
  columns :: "string list"
  data :: "'a list list"

section \<open>Filter, pivot, sort, convert (lines 55 to 60)\<close>

text \<open>\<^verbatim>\<open>df["genre"].isin(genres)\<close>: membership in the selected values.\<close>

definition isin :: "string \<Rightarrow> string list \<Rightarrow> bool" where
  "isin g genres \<longleftrightarrow> g \<in> set genres"

text \<open>\<^verbatim>\<open>df["year"].between(years[0], years[1])\<close>: both ends inclusive.\<close>

definition between :: "int \<Rightarrow> int \<Rightarrow> int \<Rightarrow> bool" where
  "between y left right \<longleftrightarrow> left \<le> y \<and> y \<le> right"

text \<open>Line 55: boolean indexing keeps the rows where both masks hold, in their order.\<close>

definition df_filtered :: "'a movie list \<Rightarrow> string list \<Rightarrow> int \<times> int \<Rightarrow> 'a movie list" where
  "df_filtered df genres years =
     filter (\<lambda>r. isin (genre r) genres \<and> between (year r) (fst years) (snd years)) df"

text \<open>
  \<^verbatim>\<open>pivot_table(index="year", columns="genre", values="gross", aggfunc="sum", fill_value=0)\<close>
  groups the rows by the observed (year, genre) keys, in sorted key order, and sums
  \<^verbatim>\<open>gross\<close> in each group, in the arithmetic of the column; it then unstacks the
  genre level: the rows are the observed years, the columns the observed genres, both
  sorted, and a combination that is no group is filled with \<^verbatim>\<open>fill_value\<close>.
\<close>

definition groupby_sum :: "('a :: comm_monoid_add) movie list \<Rightarrow> ((int \<times> string) \<times> 'a) list" where
  "groupby_sum rows =
     map (\<lambda>k. (k, sum_list (map gross (filter (\<lambda>r. (year r, genre r) = k) rows))))
       (sort (remdups (map (\<lambda>r. (year r, genre r)) rows)))"

definition unstack :: "((int \<times> string) \<times> 'a) list \<Rightarrow> 'a \<Rightarrow> 'a frame" where
  "unstack groups fill_value =
     (let ys = sort (remdups (map (\<lambda>kv. fst (fst kv)) groups));
          gs = sort (remdups (map (\<lambda>kv. snd (fst kv)) groups))
      in \<lparr>index = ys, columns = gs,
          data = map (\<lambda>y. map (\<lambda>g. case map_of groups (y, g) of
                                        None \<Rightarrow> fill_value
                                      | Some v \<Rightarrow> v) gs) ys\<rparr>)"

definition pivot_table :: "('a :: comm_monoid_add) movie list \<Rightarrow> 'a frame" where
  "pivot_table rows = unstack (groupby_sum rows) 0"

text \<open>
  \<^verbatim>\<open>sort_values(by="year", ascending=False)\<close>: the rows, each with its label, in
  descending order of the label.
\<close>

definition sort_values :: "'a frame \<Rightarrow> 'a frame" where
  "sort_values f =
     (let rs = rev (sort_key fst (zip (index f) (data f)))
      in f\<lparr>index := map fst rs, data := map snd rs\<rparr>)"

text \<open>
  \<^verbatim>\<open>df_reshaped * usd_to_eur_rate\<close>: every cell times the scalar, labels kept. The
  product is that of the type of the cells; the program's is the rounded product of
  \<^verbatim>\<open>float64\<close>.
\<close>

definition mul :: "('a :: times) frame \<Rightarrow> 'a \<Rightarrow> 'a frame" where
  "mul f rate = f\<lparr>data := map (map (\<lambda>v. v * rate)) (data f)\<rparr>"

definition df_reshaped ::
    "('a :: comm_monoid_add) movie list \<Rightarrow> string list \<Rightarrow> int \<times> int \<Rightarrow> 'a frame" where
  "df_reshaped df genres years = sort_values (pivot_table (df_filtered df genres years))"

definition df_reshaped_eur ::
    "('a :: {comm_monoid_add, times}) movie list \<Rightarrow> string list \<Rightarrow> int \<times> int \<Rightarrow> 'a \<Rightarrow> 'a frame" where
  "df_reshaped_eur df genres years rate = mul (df_reshaped df genres years) rate"

text \<open>
  Reading one cell by its labels, as \<^verbatim>\<open>frame.loc[y, g]\<close> does; \<^const>\<open>None\<close> stands for
  the \<^verbatim>\<open>KeyError\<close> of a label that is not there.
\<close>

definition loc :: "'a frame \<Rightarrow> int \<Rightarrow> string \<Rightarrow> 'a option" where
  "loc f y g =
     (case map_of (zip (index f) (data f)) y of
        None \<Rightarrow> None
      | Some row \<Rightarrow> map_of (zip (columns f) row) g)"

text \<open>
  A frame is well formed when its labels are distinct on both axes and its cells are a
  rectangle of the labels' size.
\<close>

definition wf_frame :: "'a frame \<Rightarrow> bool" where
  "wf_frame f \<longleftrightarrow>
     distinct (index f) \<and> distinct (columns f) \<and>
     length (data f) = length (index f) \<and>
     list_all (\<lambda>row. length row = length (columns f)) (data f)"

text \<open>
  \<^verbatim>\<open>sort_values\<close> sorts with quicksort unless told otherwise, and quicksort is not
  stable: of the order of the rows the call promises only that the labels descend. Every
  frame with the same columns and the same labelled rows in such an order is a possible
  outcome of line 59.
\<close>

definition sort_values_outcome :: "'a frame \<Rightarrow> 'a frame \<Rightarrow> bool" where
  "sort_values_outcome f f' \<longleftrightarrow>
     columns f' = columns f \<and>
     length (index f') = length (data f') \<and>
     mset (zip (index f') (data f')) = mset (zip (index f) (data f)) \<and>
     sorted (rev (index f'))"

section \<open>The year slider (line 52)\<close>

text \<open>\<^verbatim>\<open>st.slider("Years", 1986, 2006, (2000, 2016))\<close>: label, lower bound, upper bound, default.\<close>

record slider_args =
  min_value :: int
  max_value :: int
  default_value :: "int \<times> int"

definition years_slider :: slider_args where
  "years_slider = \<lparr>min_value = 1986, max_value = 2006, default_value = (2000, 2016)\<rparr>"

definition default_within_bounds :: "slider_args \<Rightarrow> bool" where
  "default_within_bounds a \<longleftrightarrow>
     min_value a \<le> fst (default_value a) \<and> snd (default_value a) \<le> max_value a"

section \<open>The exchange-rate fetch (lines 26 to 42)\<close>

text \<open>
  A Python float: a finite value, here a real, or one of the three that are not finite.
\<close>

datatype py_float_val = Finite real | PosInf | NegInf | NaN

text \<open>
  A parsed JSON document, as \<^verbatim>\<open>json.loads\<close> returns it. A number written without
  fraction and exponent is an int of any size; any other number is a float, and so are the
  literals \<^verbatim>\<open>NaN\<close>, \<^verbatim>\<open>Infinity\<close> and \<^verbatim>\<open>-Infinity\<close>, which the parser accepts.
\<close>

datatype json =
  JNull
  | JBool bool
  | JInt int
  | JFloat py_float_val
  | JStr string
  | JArr "json list"
  | JObj "(string \<times> json) list"

text \<open>
  The exception classes of the fetch. \<open>Other\<close> is any class that is none of the named
  ones and derives from none of them, such as \<^verbatim>\<open>ssl.SSLError\<close> or
  \<^verbatim>\<open>RecursionError\<close>.
\<close>

datatype py_exn =
  URLError
  | HTTPError
  | TimeoutError
  | KeyError
  | ValueError
  | JSONDecodeError
  | UnicodeDecodeError
  | TypeError
  | OverflowError
  | ConnectionResetError
  | RemoteDisconnected
  | IncompleteRead
  | Other string

text \<open>
  \<open>subclass_of e c\<close>: an exception of class \<open>e\<close> is an instance of class \<open>c\<close>.
  \<^verbatim>\<open>HTTPError\<close> derives from \<^verbatim>\<open>URLError\<close>; \<^verbatim>\<open>JSONDecodeError\<close> and
  \<^verbatim>\<open>UnicodeDecodeError\<close> derive from \<^verbatim>\<open>ValueError\<close>; \<^verbatim>\<open>RemoteDisconnected\<close>
  derives from \<^verbatim>\<open>ConnectionResetError\<close>.
\<close>

definition subclass_of :: "py_exn \<Rightarrow> py_exn \<Rightarrow> bool" where
  "subclass_of e c \<longleftrightarrow>
     e = c \<or> (e = HTTPError \<and> c = URLError) \<or>
     (e = JSONDecodeError \<and> c = ValueError) \<or>
     (e = UnicodeDecodeError \<and> c = ValueError) \<or>
     (e = RemoteDisconnected \<and> c = ConnectionResetError)"

text \<open>
  What lines 29 to 32 produce: either \<^verbatim>\<open>urlopen\<close>, \<^verbatim>\<open>read\<close>, \<^verbatim>\<open>decode\<close> or
  \<^verbatim>\<open>json.loads\<close> raises, or the payload is loaded. A connection failure and a timeout
  while connecting are a \<^verbatim>\<open>URLError\<close> and an error status is an \<^verbatim>\<open>HTTPError\<close>; a
  timeout while the response is read is a \<^verbatim>\<open>TimeoutError\<close>, a connection that is reset
  or closed then a \<^verbatim>\<open>ConnectionResetError\<close> or a \<^verbatim>\<open>RemoteDisconnected\<close>, a body
  cut short an \<^verbatim>\<open>IncompleteRead\<close>; bytes that are not UTF-8 are a
  \<^verbatim>\<open>UnicodeDecodeError\<close> and a body that is not JSON is a \<^verbatim>\<open>JSONDecodeError\<close>.
\<close>

datatype fetched = Raised py_exn | Loaded json

text \<open>
  \<^verbatim>\<open>obj[key]\<close> with a string key. A JSON object is a dict, in which the last of several
  equal keys wins and a missing key is a \<^verbatim>\<open>KeyError\<close>; a list, a string, a number, a
  boolean or \<^verbatim>\<open>None\<close> indexed by a string is a \<^verbatim>\<open>TypeError\<close>.
\<close>

fun getitem :: "json \<Rightarrow> string \<Rightarrow> py_exn + json" where
  "getitem (JObj kvs) k = (case map_of (rev kvs) k of None \<Rightarrow> Inl KeyError | Some v \<Rightarrow> Inr v)"
| "getitem _ k = Inl TypeError"

text \<open>
  \<^verbatim>\<open>float(v)\<close>. A float is itself, finite or not, and a boolean is 1 or 0. An int is
  converted, and one that rounds beyond the largest float, from \<open>2 ^ 1024 - 2 ^ 970\<close>
  on in absolute value, is an \<^verbatim>\<open>OverflowError\<close>; the rounding of a smaller one is not
  modelled. A string is parsed, and one that is no number is a \<^verbatim>\<open>ValueError\<close> (the
  parser of the language is the parameter \<open>str_to_float\<close>). \<^verbatim>\<open>None\<close>, a list and a
  dict are a \<^verbatim>\<open>TypeError\<close>.
\<close>

fun py_float :: "(string \<Rightarrow> py_float_val option) \<Rightarrow> json \<Rightarrow> py_exn + py_float_val" where
  "py_float str_to_float (JFloat x) = Inr x"
| "py_float str_to_float (JInt n) =
     (if 2 ^ 1024 - 2 ^ 970 \<le> \<bar>n\<bar> then Inl OverflowError else Inr (Finite (of_int n)))"
| "py_float str_to_float (JBool b) = Inr (Finite (if b then 1 else 0))"
| "py_float str_to_float (JStr s) =
     (case str_to_float s of None \<Rightarrow> Inl ValueError | Some x \<Rightarrow> Inr x)"
| "py_float str_to_float _ = Inl TypeError"

text \<open>
  Line 34, \<^verbatim>\<open>return float(payload["rates"]["EUR"]), payload["date"]\<close>, evaluated left to
  right; the first exception ends the call.
\<close>

definition load_usd_to_eur_rate ::
    "(string \<Rightarrow> py_float_val option) \<Rightarrow> fetched \<Rightarrow> py_exn + (py_float_val \<times> json)" where
  "load_usd_to_eur_rate str_to_float r =
     (case r of
        Raised e \<Rightarrow> Inl e
      | Loaded payload \<Rightarrow>
          (case getitem payload ''rates'' of
             Inl e \<Rightarrow> Inl e
           | Inr rates \<Rightarrow>
               (case getitem rates ''EUR'' of
                  Inl e \<Rightarrow> Inl e
                | Inr v \<Rightarrow>
                    (case py_float str_to_float v of
                       Inl e \<Rightarrow> Inl e
                     | Inr rate \<Rightarrow>
                         (case getitem payload ''date'' of
                            Inl e \<Rightarrow> Inl e
                          | Inr d \<Rightarrow> Inr (rate, d))))))"

text \<open>
  Line 40:
  \<^verbatim>\<open>except (error.URLError, TimeoutError, KeyError, ValueError, json.JSONDecodeError)\<close>.
  The clause catches an exception that is an instance of one of its classes.
\<close>

definition except_classes :: "py_exn list" where
  "except_classes = [URLError, TimeoutError, KeyError, ValueError, JSONDecodeError]"

definition caught :: "py_exn \<Rightarrow> bool" where
  "caught e \<longleftrightarrow> list_ex (subclass_of e) except_classes"

text \<open>
  One run of the script from line 37 on: the error message and \<^verbatim>\<open>st.stop()\<close>; or the
  caption's rate and date with the converted matrix; or, when the rate is a float that is
  not finite, which raises nothing, the same with a matrix of cells that are not finite
  and that a frame of reals does not hold; or an exception that no clause catches and
  that ends the run.
\<close>

datatype run =
  Error_and_stop string
  | Rendered "real \<times> json" "real frame"
  | Rendered_not_finite py_float_val json
  | Uncaught py_exn

definition error_message :: string where
  "error_message = ''Could not load a live USD to EUR exchange rate. Please try again.''"

definition script ::
    "(string \<Rightarrow> py_float_val option) \<Rightarrow> fetched \<Rightarrow> real movie list \<Rightarrow> string list
       \<Rightarrow> int \<times> int \<Rightarrow> run" where
  "script str_to_float r df genres years =
     (case load_usd_to_eur_rate str_to_float r of
        Inl e \<Rightarrow> if caught e then Error_and_stop error_message else Uncaught e
      | Inr (usd_to_eur_rate, fx_date) \<Rightarrow>
          (case usd_to_eur_rate of
             Finite rate \<Rightarrow> Rendered (rate, fx_date) (df_reshaped_eur df genres years rate)
           | _ \<Rightarrow> Rendered_not_finite usd_to_eur_rate fx_date))"

section \<open>The cache of the rate (line 26)\<close>

text \<open>
  \<^verbatim>\<open>@st.cache_data(ttl=60 * 60 * 12)\<close>: the decorator is given a time to live, in
  seconds. What the decorator does with it is decided in its library.
\<close>

definition ttl :: nat where
  "ttl = 60 * 60 * 12"

section \<open>The totals of the specification\<close>

text \<open>
  The total the specification asks for in the cell of row \<open>y\<close> and column \<open>g\<close>: the sum of
  gross over the records of the raw table whose genre is \<open>g\<close> and is selected, and whose
  year is \<open>y\<close> and lies in the inclusive range.
\<close>

definition spec_cell_sum ::
    "('a :: comm_monoid_add) movie list \<Rightarrow> string list \<Rightarrow> int \<times> int \<Rightarrow> int \<Rightarrow> string \<Rightarrow> 'a" where
  "spec_cell_sum df genres years y g =
     sum_list (map gross
       (filter (\<lambda>r. genre r = g \<and> genre r \<in> set genres \<and>
                   year r = y \<and> fst years \<le> year r \<and> year r \<le> snd years) df))"

text \<open>
  The reference of the round trip: the raw table grouped by (year, genre), with gross
  summed. A key that occurs in the table has the sum of the gross of its records; any
  other key has no total.
\<close>

definition spec_groupby_sum :: "('a :: comm_monoid_add) movie list \<Rightarrow> int \<times> string \<Rightarrow> 'a option" where
  "spec_groupby_sum df k =
     (if k \<in> set (map (\<lambda>r. (year r, genre r)) df)
      then Some (sum_list (map gross (filter (\<lambda>r. (year r, genre r) = k) df)))
      else None)"

section \<open>Sample inputs\<close>

text \<open>
  Small tables and a payload of the rate service, used to run the definitions. The third
  table holds two records of one year and genre; the fourth is a column of \<^verbatim>\<open>int64\<close>
  whose sum leaves the range.
\<close>

definition scenario_df :: "real movie list" where
  "scenario_df =
     [\<lparr>year = 2005, genre = ''Drama'', gross = 100\<rparr>,
      \<lparr>year = 2005, genre = ''Comedy'', gross = 50\<rparr>]"

definition sparse_df :: "real movie list" where
  "sparse_df =
     [\<lparr>year = 2005, genre = ''Drama'', gross = 100\<rparr>,
      \<lparr>year = 2003, genre = ''Drama'', gross = 70\<rparr>,
      \<lparr>year = 2003, genre = ''Horror'', gross = 20\<rparr>,
      \<lparr>year = 1990, genre = ''Comedy'', gross = 50\<rparr>]"

definition repeated_df :: "real movie list" where
  "repeated_df =
     [\<lparr>year = 2003, genre = ''Drama'', gross = 100\<rparr>,
      \<lparr>year = 2005, genre = ''Comedy'', gross = 50\<rparr>,
      \<lparr>year = 2003, genre = ''Drama'', gross = 25\<rparr>]"

definition int64_df :: "64 word movie list" where
  "int64_df =
     [\<lparr>year = 2005, genre = ''Drama'', gross = 4611686018427387904\<rparr>,
      \<lparr>year = 2005, genre = ''Drama'', gross = 4611686018427387904\<rparr>]"

definition sample_payload :: json where
  "sample_payload =
     JObj [(''amount'', JFloat (Finite 1)), (''base'', JStr ''USD''),
           (''date'', JStr ''2024-01-01''),
           (''rates'', JObj [(''EUR'', JFloat (Finite (9 / 10)))])]"

lemmas pipeline_defs =
  df_reshaped_eur_def df_reshaped_def mul_def sort_values_def pivot_table_def
  unstack_def groupby_sum_def df_filtered_def isin_def between_def

section \<open>Properties of the pipeline\<close>

lemma map_of_groupby_sum:
  "map_of (groupby_sum rows) k =
     (if k \<in> set (map (\<lambda>r. (year r, genre r)) rows)
      then Some (sum_list (map gross (filter (\<lambda>r. (year r, genre r) = k) rows)))
      else None)"
proof -
  let ?ks = "sort (remdups (map (\<lambda>r. (year r, genre r)) rows))"
  let ?f = "\<lambda>k. sum_list (map gross (filter (\<lambda>r. (year r, genre r) = k) rows))"
  have "groupby_sum rows = zip ?ks (map ?f ?ks)"
    unfolding groupby_sum_def by (simp add: zip_map2 zip_same_conv_map)
  then have "map_of (groupby_sum rows) k = (if k \<in> set ?ks then Some (?f k) else None)"
    by (simp add: map_of_zip_map)
  then show ?thesis by simp
qed

lemma keys_groupby_sum:
  "map fst (groupby_sum rows) = sort (remdups (map (\<lambda>r. (year r, genre r)) rows))"
  unfolding groupby_sum_def by (simp add: comp_def)

lemma set_index_pivot_table: "set (index (pivot_table rows)) = year ` set rows"
  unfolding pivot_table_def unstack_def Let_def
  by (simp add: groupby_sum_def comp_def image_image)

lemma set_columns_pivot_table: "set (columns (pivot_table rows)) = genre ` set rows"
  unfolding pivot_table_def unstack_def Let_def
  by (simp add: groupby_sum_def comp_def image_image)

lemma distinct_index_pivot_table: "distinct (index (pivot_table rows))"
  unfolding pivot_table_def unstack_def Let_def by simp

lemma distinct_columns_pivot_table: "distinct (columns (pivot_table rows))"
  unfolding pivot_table_def unstack_def Let_def by simp

lemma sorted_index_pivot_table: "sorted (index (pivot_table rows))"
  unfolding pivot_table_def unstack_def Let_def by simp

lemma sorted_columns_pivot_table: "sorted (columns (pivot_table rows))"
  unfolding pivot_table_def unstack_def Let_def by simp

text \<open>A group that was never observed has no rows, so its sum is the fill value 0.\<close>

lemma pivot_cell:
  "(case map_of (groupby_sum rows) (y, g) of None \<Rightarrow> 0 | Some v \<Rightarrow> v) =
     sum_list (map gross (filter (\<lambda>r. year r = y \<and> genre r = g) rows))"
proof (cases "(y, g) \<in> set (map (\<lambda>r. (year r, genre r)) rows)")
  case True
  then show ?thesis by (simp add: map_of_groupby_sum)
next
  case False
  then have "filter (\<lambda>r. year r = y \<and> genre r = g) rows = []"
    by (auto simp: filter_empty_conv)
  with False show ?thesis by (simp add: map_of_groupby_sum)
qed

lemma data_pivot_table:
  "data (pivot_table rows) =
     map (\<lambda>y. map (\<lambda>g. sum_list (map gross (filter (\<lambda>r. year r = y \<and> genre r = g) rows)))
                (columns (pivot_table rows)))
         (index (pivot_table rows))"
  unfolding pivot_table_def unstack_def Let_def by (simp add: pivot_cell)

lemma loc_pivot_table:
  "loc (pivot_table rows) y g =
     (if y \<in> year ` set rows \<and> g \<in> genre ` set rows
      then Some (sum_list (map gross (filter (\<lambda>r. year r = y \<and> genre r = g) rows)))
      else None)"
proof -
  let ?p = "pivot_table rows"
  let ?cell = "\<lambda>y g. sum_list (map gross (filter (\<lambda>r. year r = y \<and> genre r = g) rows))"
  have "map_of (zip (index ?p) (data ?p)) y =
          (if y \<in> set (index ?p) then Some (map (?cell y) (columns ?p)) else None)"
    by (subst data_pivot_table) (simp add: map_of_zip_map)
  moreover have "map_of (zip (columns ?p) (map (?cell y) (columns ?p))) g =
          (if g \<in> set (columns ?p) then Some (?cell y g) else None)"
    by (simp add: map_of_zip_map)
  ultimately show ?thesis
    by (simp add: loc_def set_index_pivot_table set_columns_pivot_table)
qed

text \<open>Sorting the rows moves each row with its label: reading by label is unchanged.\<close>

lemma zip_sort_values:
  "zip (index (sort_values f)) (data (sort_values f)) =
     rev (sort_key fst (zip (index f) (data f)))"
  unfolding sort_values_def Let_def by (simp add: zip_map_fst_snd)

lemma index_sort_values:
  "length (index f) \<le> length (data f) \<Longrightarrow>
     index (sort_values f) = rev (sort (index f))"
proof -
  assume len: "length (index f) \<le> length (data f)"
  have "index (sort_values f) = rev (map fst (sort_key fst (zip (index f) (data f))))"
    unfolding sort_values_def Let_def by (simp add: rev_map)
  also have "map fst (sort_key fst (zip (index f) (data f))) =
               sort (map fst (zip (index f) (data f)))"
    by (rule properties_for_sort[symmetric]) (simp_all add: sorted_sort_key)
  also have "map fst (zip (index f) (data f)) = index f"
    using len by (simp add: map_fst_zip_take)
  finally show ?thesis .
qed

lemma columns_sort_values: "columns (sort_values f) = columns f"
  unfolding sort_values_def Let_def by simp

lemma loc_sort_values:
  assumes "distinct (index f)"
  shows "loc (sort_values f) y g = loc f y g"
proof -
  let ?xs = "zip (index f) (data f)"
  let ?rs = "rev (sort_key fst ?xs)"
  have d1: "distinct (map fst ?xs)"
    using assms by (simp add: map_fst_zip_take)
  have "mset (map fst ?rs) = mset (map fst ?xs)"
    by (simp add: rev_map[symmetric])
  then have d2: "distinct (map fst ?rs)"
    using d1 by (metis mset_eq_imp_distinct_iff)
  have "set ?rs = set ?xs" by simp
  with d1 d2 have "map_of ?rs = map_of ?xs"
    by (simp add: map_of_inject_set)
  then show ?thesis
    unfolding loc_def zip_sort_values columns_sort_values by simp
qed

lemma map_of_map_snd:
  "map_of (map (\<lambda>p. (fst p, h (snd p))) xs) k = map_option h (map_of xs k)"
  by (induction xs) auto

lemma loc_mul: "loc (mul f rate) y g = map_option (\<lambda>v. v * rate) (loc f y g)"
proof -
  have rows: "map_of (zip (index f) (map (map (\<lambda>v. v * rate)) (data f))) y =
          map_option (map (\<lambda>v. v * rate)) (map_of (zip (index f) (data f)) y)"
    by (simp add: zip_map2 split_def map_of_map_snd)
  have cell: "map_of (zip (columns f) (map (\<lambda>v. v * rate) row)) g =
          map_option (\<lambda>v. v * rate) (map_of (zip (columns f) row) g)" for row
    by (simp add: zip_map2 split_def map_of_map_snd[where h = "\<lambda>v. v * rate"])
  show ?thesis
    unfolding loc_def mul_def
    by (simp add: rows cell split: option.splits)
qed

subsection \<open>Shape of the frames\<close>

lemma wf_frame_pivot_table: "wf_frame (pivot_table rows)"
  unfolding wf_frame_def
  by (simp add: distinct_index_pivot_table distinct_columns_pivot_table
      data_pivot_table list_all_iff)

lemma data_sort_values:
  "data (sort_values f) = map snd (rev (sort_key fst (zip (index f) (data f))))"
  unfolding sort_values_def Let_def by simp

lemma wf_frame_sort_values:
  assumes "wf_frame f"
  shows "wf_frame (sort_values f)"
proof -
  from assms have len: "length (data f) = length (index f)"
    and dist: "distinct (index f)" "distinct (columns f)"
    and rect: "\<forall>row\<in>set (data f). length row = length (columns f)"
    by (simp_all add: wf_frame_def list_all_iff)
  have "index (sort_values f) = rev (sort (index f))"
    using len by (simp add: index_sort_values)
  then have d: "distinct (index (sort_values f))"
    using dist by simp
  have l: "length (data (sort_values f)) = length (index (sort_values f))"
    unfolding sort_values_def Let_def by simp
  have "set (data (sort_values f)) \<subseteq> set (data f)"
    unfolding data_sort_values by (auto dest: set_zip_rightD)
  with rect have "\<forall>row\<in>set (data (sort_values f)). length row = length (columns f)"
    by blast
  with d l dist show ?thesis
    by (simp add: wf_frame_def list_all_iff columns_sort_values)
qed

lemma index_mul: "index (mul f rate) = index f"
  by (simp add: mul_def)

lemma columns_mul: "columns (mul f rate) = columns f"
  by (simp add: mul_def)

lemma data_mul: "data (mul f rate) = map (map (\<lambda>v. v * rate)) (data f)"
  by (simp add: mul_def)

lemma wf_frame_mul: "wf_frame f \<Longrightarrow> wf_frame (mul f rate)"
  by (simp add: wf_frame_def index_mul columns_mul data_mul list_all_iff)

lemma wf_frame_df_reshaped: "wf_frame (df_reshaped df genres years)"
  unfolding df_reshaped_def by (intro wf_frame_sort_values wf_frame_pivot_table)

lemma wf_frame_df_reshaped_eur: "wf_frame (df_reshaped_eur df genres years rate)"
  unfolding df_reshaped_eur_def by (intro wf_frame_mul wf_frame_df_reshaped)

text \<open>In a well-formed frame, reading by label and reading by position agree.\<close>

lemma loc_nth:
  assumes "wf_frame f" "i < length (index f)" "j < length (columns f)"
  shows "loc f (index f ! i) (columns f ! j) = Some (data f ! i ! j)"
proof -
  from assms have len: "length (index f) = length (data f)"
    and dist: "distinct (index f)" "distinct (columns f)"
    and rect: "\<forall>row\<in>set (data f). length row = length (columns f)"
    by (simp_all add: wf_frame_def list_all_iff)
  have row: "map_of (zip (index f) (data f)) (index f ! i) = Some (data f ! i)"
    using len dist(1) assms(2) by (simp add: map_of_zip_nth)
  have "data f ! i \<in> set (data f)"
    using len assms(2) by simp
  with rect have "length (columns f) = length (data f ! i)"
    by simp
  then have "map_of (zip (columns f) (data f ! i)) (columns f ! j) = Some (data f ! i ! j)"
    using dist(2) assms(3) by (simp add: map_of_zip_nth)
  with row show ?thesis
    by (simp add: loc_def)
qed

subsection \<open>Labels and cells of the pipeline's frames\<close>

lemma set_index_df_reshaped:
  "set (index (df_reshaped df genres years)) = year ` set (df_filtered df genres years)"
proof -
  have "length (index (pivot_table (df_filtered df genres years)))
          \<le> length (data (pivot_table (df_filtered df genres years)))"
    using wf_frame_pivot_table[of "df_filtered df genres years"] by (simp add: wf_frame_def)
  then show ?thesis
    unfolding df_reshaped_def by (simp add: index_sort_values set_index_pivot_table)
qed

lemma set_columns_df_reshaped:
  "set (columns (df_reshaped df genres years)) = genre ` set (df_filtered df genres years)"
  unfolding df_reshaped_def by (simp add: columns_sort_values set_columns_pivot_table)

lemma loc_df_reshaped:
  "loc (df_reshaped df genres years) y g =
     (if y \<in> year ` set (df_filtered df genres years) \<and>
         g \<in> genre ` set (df_filtered df genres years)
      then Some (sum_list (map gross
             (filter (\<lambda>r. year r = y \<and> genre r = g) (df_filtered df genres years))))
      else None)"
  unfolding df_reshaped_def
  by (simp only: loc_sort_values[OF distinct_index_pivot_table] loc_pivot_table)

lemma filter_df_filtered:
  "filter (\<lambda>r. year r = y \<and> genre r = g) (df_filtered df genres years) =
     filter (\<lambda>r. genre r = g \<and> genre r \<in> set genres \<and>
                 year r = y \<and> fst years \<le> year r \<and> year r \<le> snd years) df"
  unfolding df_filtered_def isin_def between_def
  by (auto intro: filter_cong)

lemma loc_df_reshaped_eur:
  "loc (df_reshaped_eur df genres years rate) y g =
     (if y \<in> set (index (df_reshaped_eur df genres years rate)) \<and>
         g \<in> set (columns (df_reshaped_eur df genres years rate))
      then Some (spec_cell_sum df genres years y g * rate)
      else None)"
  unfolding df_reshaped_eur_def spec_cell_sum_def
  by (simp add: loc_mul loc_df_reshaped index_mul columns_mul
      set_index_df_reshaped set_columns_df_reshaped filter_df_filtered)

section \<open>Claims about the pipeline\<close>

text \<open>
  The cells of the converted matrix, in the arithmetic of the type of the cells: the cell
  at row \<open>i\<close> and column \<open>j\<close> is the sum of gross over the records whose genre is the
  label of column \<open>j\<close> and is selected and whose year is the label of row \<open>i\<close> and lies in
  the range, times the rate. The cell of the program is a \<^verbatim>\<open>float64\<close>, the rounded
  product of the rate and of a sum taken in the type of the column; this lemma says which
  records it is made of, and says nothing of its rounding.
\<close>

lemma converted_cell_records:
  assumes "i < length (index (df_reshaped_eur df genres years rate))"
    and "j < length (columns (df_reshaped_eur df genres years rate))"
  shows "data (df_reshaped_eur df genres years rate) ! i ! j =
           spec_cell_sum df genres years
             (index (df_reshaped_eur df genres years rate) ! i)
             (columns (df_reshaped_eur df genres years rate) ! j) * rate
         \<and> loc (df_reshaped_eur df genres years rate)
             (index (df_reshaped_eur df genres years rate) ! i)
             (columns (df_reshaped_eur df genres years rate) ! j) =
           Some (data (df_reshaped_eur df genres years rate) ! i ! j)"
proof -
  let ?m = "df_reshaped_eur df genres years rate"
  have by_pos: "loc ?m (index ?m ! i) (columns ?m ! j) = Some (data ?m ! i ! j)"
    using wf_frame_df_reshaped_eur assms by (rule loc_nth)
  have "index ?m ! i \<in> set (index ?m)" "columns ?m ! j \<in> set (columns ?m)"
    using assms by simp_all
  then have "loc ?m (index ?m ! i) (columns ?m ! j) =
      Some (spec_cell_sum df genres years (index ?m ! i) (columns ?m ! j) * rate)"
    by (simp add: loc_df_reshaped_eur)
  with by_pos show ?thesis by simp
qed

text \<open>
  Claim C8. For every selection with inclusive year range (minYear, maxYear), every year
  that labels a row lies in [minYear, maxYear]: this holds for the filtered rows, for
  the pivoted matrix, for the sorted matrix and for the converted matrix.
\<close>

theorem row_years_within_range:
  "(\<forall>r\<in>set (df_filtered df genres years). fst years \<le> year r \<and> year r \<le> snd years) \<and>
   (\<forall>y\<in>set (index (pivot_table (df_filtered df genres years))).
       fst years \<le> y \<and> y \<le> snd years) \<and>
   (\<forall>y\<in>set (index (df_reshaped df genres years)). fst years \<le> y \<and> y \<le> snd years) \<and>
   (\<forall>y\<in>set (index (df_reshaped_eur df genres years rate)).
       fst years \<le> y \<and> y \<le> snd years)"
proof -
  have filtered: "\<forall>r\<in>set (df_filtered df genres years).
      fst years \<le> year r \<and> year r \<le> snd years"
    by (simp add: df_filtered_def between_def)
  then have "\<forall>y\<in>year ` set (df_filtered df genres years). fst years \<le> y \<and> y \<le> snd years"
    by blast
  with filtered show ?thesis
    by (simp only: df_reshaped_eur_def index_mul set_index_df_reshaped
        set_index_pivot_table simp_thms)
qed

theorem row_years_within_range_witness:
  "2003 \<in> set (index (df_reshaped_eur sparse_df [''Drama'', ''Comedy'', ''Horror''] (2000, 2010) (9 / 10)))
   \<and> 2005 \<in> set (index (df_reshaped sparse_df [''Drama'', ''Comedy'', ''Horror''] (2000, 2010)))
   \<and> index (df_reshaped_eur sparse_df [''Drama'', ''Comedy'', ''Horror''] (2000, 2010) (9 / 10))
       = [2005, 2003]
   \<and> (2000 :: int) \<le> 2003 \<and> (2005 :: int) \<le> 2010"
  using row_years_within_range
    [of sparse_df "[''Drama'', ''Comedy'', ''Horror'']" "(2000, 2010)" "9 / 10"]
  by (simp add: pipeline_defs sparse_df_def)

text \<open>
  Claim C3, as stated: the reshaped matrix has one column for every selected genre, a
  selected genre without matching records being an all-zero column. The pivot only makes
  columns for the genres it observes in the filtered rows: with Comedy selected and
  recorded only in 1990, the range 2000 to 2010 leaves no Comedy column.
\<close>

theorem selected_genre_column_dropped:
  "''Comedy'' \<in> set [''Drama'', ''Comedy'']
   \<and> columns (df_reshaped sparse_df [''Drama'', ''Comedy''] (2000, 2010)) = [''Drama'']
   \<and> ''Comedy'' \<notin> set (columns (df_reshaped sparse_df [''Drama'', ''Comedy''] (2000, 2010)))
   \<and> index (df_reshaped sparse_df [''Drama'', ''Comedy''] (2000, 2010)) = [2005, 2003]
   \<and> loc (df_reshaped sparse_df [''Drama'', ''Comedy''] (2000, 2010)) 2005 ''Comedy'' = None"
  by (simp add: pipeline_defs sparse_df_def loc_def)

text \<open>
  Claim C3, amended. The columns of the reshaped matrix are exactly the selected genres
  that have at least one record within the year range. Every combination of a row year
  and a column genre has a cell, and a combination without a matching record reads 0.
\<close>

theorem columns_are_observed_selected_genres:
  "set (columns (df_reshaped df genres years)) =
     {g \<in> set genres. \<exists>r\<in>set df. genre r = g \<and> fst years \<le> year r \<and> year r \<le> snd years}
   \<and> (\<forall>y\<in>set (index (df_reshaped df genres years)).
       \<forall>g\<in>set (columns (df_reshaped df genres years)).
         loc (df_reshaped df genres years) y g = Some (spec_cell_sum df genres years y g) \<and>
         ((\<forall>r\<in>set df. \<not> (year r = y \<and> genre r = g)) \<longrightarrow>
            loc (df_reshaped df genres years) y g = Some 0))"
proof -
  let ?m = "df_reshaped df genres years"
  have cols: "set (columns ?m) =
      {g \<in> set genres. \<exists>r\<in>set df. genre r = g \<and> fst years \<le> year r \<and> year r \<le> snd years}"
    by (auto simp: set_columns_df_reshaped df_filtered_def isin_def between_def)
  have cell: "loc ?m y g = Some (spec_cell_sum df genres years y g)"
    if "y \<in> set (index ?m)" "g \<in> set (columns ?m)" for y g
    using that
    by (simp add: loc_df_reshaped set_index_df_reshaped set_columns_df_reshaped
        filter_df_filtered spec_cell_sum_def)
  have zero: "spec_cell_sum df genres years y g = 0"
    if "\<forall>r\<in>set df. \<not> (year r = y \<and> genre r = g)" for y g
  proof -
    from that have "filter (\<lambda>r. genre r = g \<and> genre r \<in> set genres \<and>
        year r = y \<and> fst years \<le> year r \<and> year r \<le> snd years) df = []"
      by (auto simp: filter_empty_conv)
    then show ?thesis by (simp add: spec_cell_sum_def)
  qed
  from cols cell zero show ?thesis by simp
qed

theorem columns_are_observed_selected_genres_witness:
  "columns (df_reshaped sparse_df [''Drama'', ''Comedy'', ''Horror''] (2000, 2010))
     = [''Drama'', ''Horror'']
   \<and> 2005 \<in> set (index (df_reshaped sparse_df [''Drama'', ''Comedy'', ''Horror''] (2000, 2010)))
   \<and> ''Horror'' \<in> set (columns (df_reshaped sparse_df [''Drama'', ''Comedy'', ''Horror''] (2000, 2010)))
   \<and> filter (\<lambda>r. year r = 2005 \<and> genre r = ''Horror'') sparse_df = []
   \<and> loc (df_reshaped sparse_df [''Drama'', ''Comedy'', ''Horror''] (2000, 2010)) 2005 ''Horror''
       = Some 0"
proof -
  let ?m = "df_reshaped sparse_df [''Drama'', ''Comedy'', ''Horror''] (2000, 2010)"
  have cols: "columns ?m = [''Drama'', ''Horror'']"
    by (simp add: pipeline_defs sparse_df_def)
  have row: "2005 \<in> set (index ?m)"
    by (simp add: pipeline_defs sparse_df_def)
  have col: "''Horror'' \<in> set (columns ?m)"
    by (simp add: cols)
  have none: "\<forall>r\<in>set sparse_df. \<not> (year r = 2005 \<and> genre r = ''Horror'')"
    by (simp add: sparse_df_def)
  from columns_are_observed_selected_genres
    [of sparse_df "[''Drama'', ''Comedy'', ''Horror'']" "(2000, 2010)"] row col none
  have "loc ?m 2005 ''Horror'' = Some 0"
    by blast
  moreover have "filter (\<lambda>r. year r = 2005 \<and> genre r = ''Horror'') sparse_df = []"
    by (simp add: sparse_df_def)
  ultimately show ?thesis
    using cols row col by simp
qed

lemma map_of_groupby_sum_spec: "map_of (groupby_sum rows) = spec_groupby_sum rows"
  by (rule ext) (simp only: map_of_groupby_sum spec_groupby_sum_def)

text \<open>
  Claim C6. When the selection holds every genre of the table and the year range covers
  every year of the table, the filter keeps every row. The groups and totals that the
  pivot takes from the filtered rows are then those of the reference, the raw table
  grouped by (year, genre) with gross summed; each total of the reference is the cell of
  the reshaped matrix at its year and genre, and a cell of the matrix whose year and genre
  are no group of the reference reads 0. This holds in every commutative arithmetic of
  the column, the wrapping one of \<^verbatim>\<open>int64\<close> included.
\<close>

theorem full_selection_reproduces_groupby_sum:
  assumes "\<forall>r\<in>set df. genre r \<in> set genres"
    and "\<forall>r\<in>set df. fst years \<le> year r \<and> year r \<le> snd years"
  shows "df_filtered df genres years = df
         \<and> map_of (groupby_sum (df_filtered df genres years)) = spec_groupby_sum df
         \<and> (\<forall>y g v. spec_groupby_sum df (y, g) = Some v \<longrightarrow>
               loc (df_reshaped df genres years) y g = Some v)
         \<and> (\<forall>y g v. loc (df_reshaped df genres years) y g = Some v \<longrightarrow>
               spec_groupby_sum df (y, g) = Some v \<or>
               (spec_groupby_sum df (y, g) = None \<and> v = 0))"
proof -
  let ?total = "\<lambda>y g. sum_list (map gross (filter (\<lambda>r. year r = y \<and> genre r = g) df))"
  have same: "df_filtered df genres years = df"
    using assms by (simp add: df_filtered_def isin_def between_def)
  have ref: "spec_groupby_sum df (y, g) =
      (if (y, g) \<in> set (map (\<lambda>r. (year r, genre r)) df) then Some (?total y g) else None)"
    for y g
    by (simp add: spec_groupby_sum_def)
  have cell: "loc (df_reshaped df genres years) y g =
      (if y \<in> year ` set df \<and> g \<in> genre ` set df then Some (?total y g) else None)"
    for y g
    by (simp add: loc_df_reshaped same)
  have to_cell: "loc (df_reshaped df genres years) y g = Some v"
    if "spec_groupby_sum df (y, g) = Some v" for y g v
  proof -
    from that have seen: "(y, g) \<in> set (map (\<lambda>r. (year r, genre r)) df)" and v: "v = ?total y g"
      by (auto simp: ref split: if_splits)
    from seen have "y \<in> year ` set df" "g \<in> genre ` set df"
      by auto
    with v show ?thesis by (simp add: cell)
  qed
  have from_cell: "spec_groupby_sum df (y, g) = Some v \<or>
      (spec_groupby_sum df (y, g) = None \<and> v = 0)"
    if "loc (df_reshaped df genres years) y g = Some v" for y g v
  proof (cases "(y, g) \<in> set (map (\<lambda>r. (year r, genre r)) df)")
    case True
    then have "y \<in> year ` set df" "g \<in> genre ` set df"
      by auto
    with that True show ?thesis
      by (simp add: cell ref)
  next
    case False
    then have "filter (\<lambda>r. year r = y \<and> genre r = g) df = []"
      by (auto simp: filter_empty_conv)
    with that False show ?thesis
      by (auto simp: cell ref split: if_splits)
  qed
  from same to_cell from_cell show ?thesis
    by (simp add: map_of_groupby_sum_spec)
qed

theorem full_selection_reproduces_groupby_sum_witness:
  "df_filtered repeated_df [''Comedy'', ''Drama''] (1986, 2016) = repeated_df
   \<and> groupby_sum (df_filtered repeated_df [''Comedy'', ''Drama''] (1986, 2016))
       = [((2003, ''Drama''), 125), ((2005, ''Comedy''), 50)]
   \<and> spec_groupby_sum repeated_df (2003, ''Drama'') = Some 125
   \<and> loc (df_reshaped repeated_df [''Comedy'', ''Drama''] (1986, 2016)) 2003 ''Drama''
       = Some 125
   \<and> spec_groupby_sum repeated_df (2003, ''Comedy'') = None
   \<and> loc (df_reshaped repeated_df [''Comedy'', ''Drama''] (1986, 2016)) 2003 ''Comedy''
       = Some 0"
proof -
  have genres: "\<forall>r\<in>set repeated_df. genre r \<in> set [''Comedy'', ''Drama'']"
    by (simp add: repeated_df_def)
  have range: "\<forall>r\<in>set repeated_df.
      fst (1986 :: int, 2016 :: int) \<le> year r \<and> year r \<le> snd (1986 :: int, 2016 :: int)"
    by (simp add: repeated_df_def)
  have total: "spec_groupby_sum repeated_df (2003, ''Drama'') = Some 125"
    by (simp add: spec_groupby_sum_def repeated_df_def)
  have none: "spec_groupby_sum repeated_df (2003, ''Comedy'') = None"
    by (simp add: spec_groupby_sum_def repeated_df_def)
  have groups: "groupby_sum repeated_df =
      [((2003, ''Drama''), 125), ((2005, ''Comedy''), 50)]"
    by (simp add: groupby_sum_def repeated_df_def)
  have zero: "loc (df_reshaped repeated_df [''Comedy'', ''Drama''] (1986, 2016)) 2003 ''Comedy''
      = Some 0"
    by (simp add: pipeline_defs repeated_df_def loc_def)
  from full_selection_reproduces_groupby_sum[OF genres range] total
  have "df_filtered repeated_df [''Comedy'', ''Drama''] (1986, 2016) = repeated_df"
    and "loc (df_reshaped repeated_df [''Comedy'', ''Drama''] (1986, 2016)) 2003 ''Drama''
      = Some 125"
    by blast+
  with total none groups zero show ?thesis
    by simp
qed

text \<open>
  A column of \<^verbatim>\<open>int64\<close> sums with wrap-around: two records of \<open>2 ^ 62\<close> in one
  group make the cell \<open>- (2 ^ 63)\<close>.
\<close>

lemma int64_sum_wraps:
  "map (map sint) (data (df_reshaped int64_df [''Drama''] (2000, 2010))) =
     [[- 9223372036854775808]]"
  by (simp add: pipeline_defs int64_df_def)

subsection \<open>The order of the rows\<close>

lemma sort_values_outcome_sort_values:
  assumes "wf_frame f"
  shows "sort_values_outcome f (sort_values f)"
proof -
  from assms have len: "length (index f) \<le> length (data f)"
    by (simp add: wf_frame_def)
  have "sorted (rev (index (sort_values f)))"
    using len by (simp add: index_sort_values)
  moreover have "length (index (sort_values f)) = length (data (sort_values f))"
    unfolding sort_values_def Let_def by simp
  moreover have "mset (zip (index (sort_values f)) (data (sort_values f))) =
      mset (zip (index f) (data f))"
    by (simp add: zip_sort_values)
  ultimately show ?thesis
    by (simp add: sort_values_outcome_def columns_sort_values)
qed

text \<open>
  The labels of a well-formed frame are distinct, so descending labels leave one order
  only: the unstable sort has a single outcome.
\<close>

lemma sort_values_outcome_unique:
  assumes wf: "wf_frame f"
    and o1: "sort_values_outcome f s1"
    and o2: "sort_values_outcome f s2"
  shows "s1 = s2"
proof -
  let ?z = "zip (index f) (data f)"
  let ?z1 = "zip (index s1) (data s1)"
  let ?z2 = "zip (index s2) (data s2)"
  from o1 have l1: "length (index s1) = length (data s1)" and m1: "mset ?z1 = mset ?z"
    and srt1: "sorted (rev (index s1))" and c1: "columns s1 = columns f"
    by (simp_all add: sort_values_outcome_def)
  from o2 have l2: "length (index s2) = length (data s2)" and m2: "mset ?z2 = mset ?z"
    and srt2: "sorted (rev (index s2))" and c2: "columns s2 = columns f"
    by (simp_all add: sort_values_outcome_def)
  from wf have "map fst ?z = index f" and "distinct (index f)"
    by (simp_all add: wf_frame_def)
  then have dz: "distinct (map fst ?z)" by simp
  have f1: "map fst ?z1 = index s1" and f2: "map fst ?z2 = index s2"
    using l1 l2 by simp_all
  have "mset (map fst ?z1) = mset (map fst ?z)" "mset (map fst ?z2) = mset (map fst ?z)"
    using m1 m2 by (simp_all only: mset_map)
  with dz have d1: "distinct (map fst ?z1)" and d2: "distinct (map fst ?z2)"
    by (metis mset_eq_imp_distinct_iff)+
  have sets: "set ?z1 = set ?z2"
    using m1 m2 by (metis mset_eq_setD)
  from d1 have "inj_on fst (set ?z1)"
    by (simp only: distinct_map)
  with sets have inj: "inj_on fst (set (rev ?z1) \<union> set (rev ?z2))"
    by simp
  have "rev ?z1 = rev ?z2"
  proof (rule map_sorted_distinct_set_unique[OF inj])
    show "sorted (map fst (rev ?z1))" using srt1 f1 by (simp add: rev_map[symmetric])
    show "sorted (map fst (rev ?z2))" using srt2 f2 by (simp add: rev_map[symmetric])
    show "distinct (map fst (rev ?z1))" using d1 by (simp add: rev_map[symmetric])
    show "distinct (map fst (rev ?z2))" using d2 by (simp add: rev_map[symmetric])
    show "set (rev ?z1) = set (rev ?z2)" using sets by simp
  qed
  then have eq: "?z1 = ?z2" by simp
  have "index s1 = index s2"
    using f1 f2 eq by simp
  moreover have "data s1 = data s2"
    using arg_cong[OF eq, of "map snd"] l1 l2 by simp
  ultimately show ?thesis
    using c1 c2 by simp
qed

lemma df_filtered_set_cong:
  "set genres' = set genres \<Longrightarrow> df_filtered df genres' years = df_filtered df genres years"
  by (simp add: df_filtered_def isin_def)

text \<open>
  Claim C10. The pipeline is deterministic. Take two runs on the same table, year range
  and rate, with the same genres selected (in any order of selection), and let each
  run's sort return any of the row orders an unstable sort may return. The two converted
  matrices are equal, rows, columns, row order and cells, and equal to the matrix that
  the pipeline computes as a function of these four inputs alone.
\<close>

theorem pipeline_deterministic:
  assumes "set genres' = set genres"
    and "sort_values_outcome (pivot_table (df_filtered df genres years)) s1"
    and "sort_values_outcome (pivot_table (df_filtered df genres' years)) s2"
  shows "mul s1 rate = mul s2 rate \<and> mul s1 rate = df_reshaped_eur df genres years rate"
proof -
  let ?p = "pivot_table (df_filtered df genres years)"
  have wf: "wf_frame ?p" by (rule wf_frame_pivot_table)
  from assms(3) have o2: "sort_values_outcome ?p s2"
    by (simp only: df_filtered_set_cong[OF assms(1)])
  have "s1 = s2"
    using wf assms(2) o2 by (rule sort_values_outcome_unique)
  moreover have "s1 = sort_values ?p"
    using wf assms(2) sort_values_outcome_sort_values[OF wf]
    by (rule sort_values_outcome_unique)
  ultimately show ?thesis
    by (simp add: df_reshaped_eur_def df_reshaped_def)
qed

theorem pipeline_deterministic_witness:
  "set [''Horror'', ''Drama'', ''Drama''] = set [''Drama'', ''Horror'']
   \<and> sort_values_outcome (pivot_table (df_filtered sparse_df [''Drama'', ''Horror''] (2000, 2010)))
        \<lparr>index = [2005, 2003], columns = [''Drama'', ''Horror''], data = [[100, 0], [70, 20]]\<rparr>
   \<and> sort_values_outcome
        (pivot_table (df_filtered sparse_df [''Horror'', ''Drama'', ''Drama''] (2000, 2010)))
        \<lparr>index = [2005, 2003], columns = [''Drama'', ''Horror''], data = [[100, 0], [70, 20]]\<rparr>
   \<and> df_reshaped_eur sparse_df [''Drama'', ''Horror''] (2000, 2010) (1 / 2) =
        \<lparr>index = [2005, 2003], columns = [''Drama'', ''Horror''], data = [[50, 0], [35, 10]]\<rparr>"
proof -
  let ?s = "\<lparr>index = [2005, 2003], columns = [''Drama'', ''Horror''],
             data = [[100, 0], [70, 20 :: real]]\<rparr>"
  have sel: "set [''Horror'', ''Drama'', ''Drama''] = set [''Drama'', ''Horror'']"
    by auto
  have o1: "sort_values_outcome
      (pivot_table (df_filtered sparse_df [''Drama'', ''Horror''] (2000, 2010))) ?s"
    by (simp add: sort_values_outcome_def pipeline_defs sparse_df_def)
  have o2: "sort_values_outcome
      (pivot_table (df_filtered sparse_df [''Horror'', ''Drama'', ''Drama''] (2000, 2010))) ?s"
    by (simp add: sort_values_outcome_def pipeline_defs sparse_df_def)
  from pipeline_deterministic[OF sel o1 o2, of "1 / 2"]
  have "df_reshaped_eur sparse_df [''Drama'', ''Horror''] (2000, 2010) (1 / 2) = mul ?s (1 / 2)"
    by simp
  with sel o1 o2 show ?thesis
    by (simp add: mul_def)
qed

text \<open>
  Claim C4. The year slider is given the bounds 1986 and 2006 and the default range
  (2000, 2016); the upper end 2016 of the default is above the upper bound 2006, so the
  default range is not contained in the bounds.
\<close>

theorem slider_default_exceeds_bounds:
  "min_value years_slider = 1986 \<and> max_value years_slider = 2006 \<and>
   default_value years_slider = (2000, 2016) \<and>
   max_value years_slider < snd (default_value years_slider) \<and>
   \<not> default_within_bounds years_slider"
  by (simp add: years_slider_def default_within_bounds_def)

section \<open>Claims about the exchange rate\<close>

lemma caught_iff:
  "caught e \<longleftrightarrow>
     e \<in> {URLError, HTTPError, TimeoutError, KeyError, ValueError, JSONDecodeError,
          UnicodeDecodeError}"
  by (cases e) (simp_all add: caught_def except_classes_def subclass_of_def)

text \<open>
  Every failure that the except clause names, or that derives from a class it names,
  ends the run with the one error message.
\<close>

lemma caught_failure_shows_error_message:
  assumes "load_usd_to_eur_rate str_to_float r = Inl e" and "caught e"
  shows "script str_to_float r df genres years = Error_and_stop error_message"
  using assms by (simp add: script_def)

lemma missing_rates_key_is_caught:
  "script str_to_float (Loaded (JObj [(''date'', JStr ''2024-01-01'')])) df genres years =
     Error_and_stop error_message"
  by (simp add: script_def load_usd_to_eur_rate_def caught_iff)

text \<open>
  The scenario of the specification: a rate of 0.90 as of 2024-01-01, Drama 100 and
  Comedy 50 in 2005.
\<close>

lemma scenario_run:
  "script str_to_float (Loaded sample_payload) scenario_df [''Drama'', ''Comedy''] (2000, 2010) =
     Rendered (9 / 10, JStr ''2024-01-01'')
       \<lparr>index = [2005], columns = [''Comedy'', ''Drama''], data = [[45, 90]]\<rparr>"
  by (simp add: script_def load_usd_to_eur_rate_def sample_payload_def pipeline_defs
      scenario_df_def)

text \<open>
  Other failures leave the script uncaught as well: an integer rate too large for a
  float, and a connection closed while the response is read.
\<close>

lemma huge_rate_escapes_except_clause:
  "script str_to_float
     (Loaded (JObj [(''rates'', JObj [(''EUR'', JInt (2 ^ 1024))]), (''date'', JStr ''2024-01-01'')]))
     df genres years = Uncaught OverflowError"
  by (simp add: script_def load_usd_to_eur_rate_def caught_iff)

lemma closed_connection_escapes_except_clause:
  "script str_to_float (Raised RemoteDisconnected) df genres years = Uncaught RemoteDisconnected"
  by (simp add: script_def load_usd_to_eur_rate_def caught_iff)

text \<open>
  Claim C2 says that every failure of the fetch, a non-numeric rate value among them,
  ends in the one error message and never in a raw exception. The source catches
  \<^verbatim>\<open>ValueError\<close> for a rate that is a string and no number, but \<^verbatim>\<open>float\<close> of a
  JSON \<^verbatim>\<open>null\<close> is a \<^verbatim>\<open>TypeError\<close>, which the except clause does not name: for the
  payload \<^verbatim>\<open>{"rates": {"EUR": null}, "date": "2024-01-01"}\<close> the exception leaves the
  script uncaught. The same holds for a payload whose \<^verbatim>\<open>rates\<close> is not an object.
\<close>

theorem null_rate_escapes_except_clause:
  "load_usd_to_eur_rate str_to_float
     (Loaded (JObj [(''rates'', JObj [(''EUR'', JNull)]), (''date'', JStr ''2024-01-01'')]))
     = Inl TypeError
   \<and> \<not> caught TypeError
   \<and> script str_to_float
       (Loaded (JObj [(''rates'', JObj [(''EUR'', JNull)]), (''date'', JStr ''2024-01-01'')]))
       df genres years = Uncaught TypeError
   \<and> script str_to_float
       (Loaded (JObj [(''rates'', JNull), (''date'', JStr ''2024-01-01'')]))
       df genres years = Uncaught TypeError"
  by (simp add: script_def load_usd_to_eur_rate_def caught_iff)

subsection \<open>The time to live\<close>

text \<open>The time to live given to the cache of the rate is 12 hours.\<close>

lemma ttl_is_twelve_hours: "ttl = 12 * 3600"
  by (simp add: ttl_def)

section \<open>The empty selection\<close>

text \<open>
  With no genre selected, or with a year range that holds no year of the table, the
  filter keeps no row and the matrix has no row and no column. What the table and chart
  widgets do with such a matrix is decided in their libraries and is not modelled.
\<close>

lemma empty_selection_zero_rows:
  assumes "genres = [] \<or> (\<forall>r\<in>set df. \<not> (fst years \<le> year r \<and> year r \<le> snd years))"
  shows "df_filtered df genres years = []"
    and "df_reshaped df genres years = \<lparr>index = [], columns = [], data = []\<rparr>"
    and "df_reshaped_eur df genres years rate = \<lparr>index = [], columns = [], data = []\<rparr>"
proof -
  show none: "df_filtered df genres years = []"
    using assms by (auto simp: df_filtered_def isin_def between_def filter_empty_conv)
  then show "df_reshaped df genres years = \<lparr>index = [], columns = [], data = []\<rparr>"
    by (simp add: df_reshaped_def pivot_table_def unstack_def groupby_sum_def sort_values_def)
  then show "df_reshaped_eur df genres years rate = \<lparr>index = [], columns = [], data = []\<rparr>"
    by (simp add: df_reshaped_eur_def mul_def)
qed

end
